theory Spec2Isabelle
  imports Main "HOL-Library.Sublist"
begin

section \<open>AfroVice API: the storage schema\<close>

text \<open>
  The program is \<^verbatim>\<open>main.py\<close>: SQLAlchemy table classes, Pydantic contracts and FastAPI
  route handlers over one PostgreSQL database. A \<^verbatim>\<open>datetime\<close> is an opaque instant,
  Python's unbounded \<^verbatim>\<open>int\<close> is \<open>int\<close>, \<^verbatim>\<open>str\<close> is \<open>string\<close>, and an
  \<^verbatim>\<open>Optional[T]\<close> field or nullable column is \<open>T option\<close>.
\<close>

type_synonym datetime = int

text \<open>One record per mapped class, one field per \<^verbatim>\<open>Column\<close>, in the order declared.\<close>

record Role =
  Role_id :: int
  Role_created_at :: datetime
  Role_name :: string

record User =
  User_id :: int
  User_created_at :: datetime
  User_name :: string
  User_email :: string
  User_password :: string
  User_role_id :: int
  User_photo :: "string option"

record MusicGender =
  MusicGender_id :: int
  MusicGender_created_at :: datetime
  MusicGender_name :: string

record Artist =
  Artist_id :: int
  Artist_created_at :: datetime
  Artist_name :: string
  Artist_photo :: string

record ArtistGender =
  ArtistGender_id :: int
  ArtistGender_created_at :: datetime
  ArtistGender_artist_id :: int
  ArtistGender_music_gender_id :: int

record Event =
  Event_id :: int
  Event_created_at :: datetime
  Event_name :: "string option"
  Event_logo :: "string option"
  Event_price :: int

record Presentation =
  Presentation_id :: int
  Presentation_created_at :: datetime
  Presentation_event_id :: int
  Presentation_date_start :: datetime
  Presentation_date_end :: "datetime option"
  Presentation_flyer :: string

record PresentationArtist =
  PresentationArtist_id :: int
  PresentationArtist_created_at :: datetime
  PresentationArtist_presentation_id :: int
  PresentationArtist_artist_id :: int
  PresentationArtist_schedule :: datetime

record Ticket =
  Ticket_id :: int
  Ticket_created_at :: datetime
  Ticket_user_id :: int
  Ticket_presentation_id :: int

record Comment =
  Comment_id :: int
  Comment_created_at :: datetime
  Comment_message :: string
  Comment_presentation_id :: "int option"
  Comment_user_id :: "int option"

text \<open>
  A table is its rows in storage order (insertion order) together with the sequence that
  feeds its \<^verbatim>\<open>BigInteger\<close> primary key: \<open>last_id\<close> is the value the sequence gave out last.
\<close>

record 'r table =
  rows :: "'r list"
  last_id :: int

record database =
  tbl_Role :: "Role table"
  tbl_User :: "User table"
  tbl_Music_Gender :: "MusicGender table"
  tbl_Artist :: "Artist table"
  tbl_Artist_Gender :: "ArtistGender table"
  tbl_Event :: "Event table"
  tbl_Presentation :: "Presentation table"
  tbl_Presentation_Artist :: "PresentationArtist table"
  tbl_Ticket :: "Ticket table"
  tbl_Comment :: "Comment table"

definition empty_table :: "'r table" where
  "empty_table = \<lparr>rows = [], last_id = 0\<rparr>"

definition empty_db :: database where
  "empty_db = \<lparr>tbl_Role = empty_table, tbl_User = empty_table,
     tbl_Music_Gender = empty_table, tbl_Artist = empty_table,
     tbl_Artist_Gender = empty_table, tbl_Event = empty_table,
     tbl_Presentation = empty_table, tbl_Presentation_Artist = empty_table,
     tbl_Ticket = empty_table, tbl_Comment = empty_table\<rparr>"

subsection \<open>Session operations\<close>

text \<open>
  What \<^verbatim>\<open>db.commit()\<close> raises when the INSERT it flushes is refused. The handlers catch
  none of it. The driver (psycopg2) refuses a string parameter it cannot encode as UTF-8
  (one with a surrogate code point) and one that contains the character NUL; the engine
  refuses a number that does not fit its \<^verbatim>\<open>Integer\<close> (32 bits) or \<^verbatim>\<open>BigInteger\<close> (64 bits)
  column, a duplicate in a \<^verbatim>\<open>unique=True\<close> column, a key too large for the index of such
  a column, and a \<^verbatim>\<open>ForeignKey\<close> value that names no row.
\<close>

datatype storage_error =
  StringNotEncodable | StringWithNul | NumericValueOutOfRange | UniqueViolation
  | ProgramLimitExceeded | ForeignKeyViolation

datatype exn = HTTPException nat string | StorageError storage_error

text \<open>
  How large a key the index of a unique column takes depends on the engine (its page
  size, its compression of the key), not on the program: it is a parameter of the model.
\<close>

type_synonym index_limit = "string \<Rightarrow> bool"

text \<open>
  A Python \<^verbatim>\<open>str\<close> is the bytes of its UTF-8 encoding; a surrogate code point, which
  a \<^verbatim>\<open>str\<close> can hold and UTF-8 cannot, is the three bytes the same scheme would give it:
  ED, then A0 to BF, then 80 to BF.
\<close>

fun has_surrogate :: "string \<Rightarrow> bool" where
  "has_surrogate (a # b # cs) \<longleftrightarrow>
     a = CHR 0xED \<and> (0xA0 :: nat) \<le> of_char b \<or> has_surrogate (b # cs)"
| "has_surrogate cs \<longleftrightarrow> False"

definition text_ok :: "string \<Rightarrow> bool" where
  "text_ok v \<longleftrightarrow> \<not> has_surrogate v \<and> CHR 0x00 \<notin> set v"

definition integer_ok :: "int \<Rightarrow> bool" where
  "integer_ok i \<longleftrightarrow> - (2 ^ 31) \<le> i \<and> i < 2 ^ 31"

definition bigint_ok :: "int \<Rightarrow> bool" where
  "bigint_ok i \<longleftrightarrow> - (2 ^ 63) \<le> i \<and> i < 2 ^ 63"

text \<open>\<^verbatim>\<open>db.get(Model, ident)\<close>: the row with that primary key, or \<^verbatim>\<open>None\<close>.\<close>

definition db_get :: "('r \<Rightarrow> int) \<Rightarrow> 'r table \<Rightarrow> int \<Rightarrow> 'r option" where
  "db_get pk t ident = find (\<lambda>r. pk r = ident) (rows t)"

text \<open>\<^verbatim>\<open>db.query(Model).all()\<close>: every row, in storage order.\<close>

definition query_all :: "'r table \<Rightarrow> 'r list" where
  "query_all t = rows t"

text \<open>The checks on the parameters of the statement, made before any row is formed.\<close>

definition text_check :: "string \<Rightarrow> storage_error option" where
  "text_check v =
     (if has_surrogate v then Some StringNotEncodable
      else if CHR 0x00 \<in> set v then Some StringWithNul
      else None)"

definition text_check_opt :: "string option \<Rightarrow> storage_error option" where
  "text_check_opt v = (case v of None \<Rightarrow> None | Some x \<Rightarrow> text_check x)"

definition integer_check :: "int \<Rightarrow> storage_error option" where
  "integer_check v = (if integer_ok v then None else Some NumericValueOutOfRange)"

definition bigint_check :: "int \<Rightarrow> storage_error option" where
  "bigint_check v = (if bigint_ok v then None else Some NumericValueOutOfRange)"

definition bigint_check_opt :: "int option \<Rightarrow> storage_error option" where
  "bigint_check_opt v = (case v of None \<Rightarrow> None | Some x \<Rightarrow> bigint_check x)"

text \<open>The constraints the engine checks on the row it inserts.\<close>

definition unique_check :: "('r \<Rightarrow> string) \<Rightarrow> 'r table \<Rightarrow> string \<Rightarrow> storage_error option" where
  "unique_check col t v =
     (if \<exists>r \<in> set (rows t). col r = v then Some UniqueViolation else None)"

definition index_check :: "index_limit \<Rightarrow> string \<Rightarrow> storage_error option" where
  "index_check fits v = (if fits v then None else Some ProgramLimitExceeded)"

definition fk_check :: "('r \<Rightarrow> int) \<Rightarrow> 'r table \<Rightarrow> int \<Rightarrow> storage_error option" where
  "fk_check pk t ref = (if db_get pk t ref = None then Some ForeignKeyViolation else None)"

definition fk_check_opt :: "('r \<Rightarrow> int) \<Rightarrow> 'r table \<Rightarrow> int option \<Rightarrow> storage_error option" where
  "fk_check_opt pk t ref = (case ref of None \<Rightarrow> None | Some i \<Rightarrow> fk_check pk t i)"

fun first_violation :: "storage_error option list \<Rightarrow> storage_error option" where
  "first_violation [] = None"
| "first_violation (None # cs) = first_violation cs"
| "first_violation (Some e # cs) = Some e"

text \<open>
  \<^verbatim>\<open>db.add(obj); db.commit(); db.refresh(obj)\<close> on an object built without an id.
  A parameter the driver or the engine refuses (\<open>params\<close>: the strings first, which the
  driver checks before it sends anything, then the numbers) ends the statement before a
  row is formed. Otherwise the sequence gives out the next id, and it is not given back:
  when a constraint on the row fails (\<open>constraints\<close>) no row is stored and the sequence
  stays advanced. When none fails the row is appended and the refreshed object is the
  stored row.
\<close>

definition add_commit_refresh ::
  "storage_error option list \<Rightarrow> storage_error option list \<Rightarrow> (int \<Rightarrow> 'r) \<Rightarrow> 'r table
     \<Rightarrow> (exn + 'r) \<times> 'r table" where
  "add_commit_refresh params constraints obj t =
     (case first_violation params of
        Some e \<Rightarrow> (Inl (StorageError e), t)
      | None \<Rightarrow>
          (let i = last_id t + 1
           in case first_violation constraints of
                Some e \<Rightarrow> (Inl (StorageError e), t\<lparr>last_id := i\<rparr>)
              | None \<Rightarrow> (Inr (obj i), \<lparr>rows = rows t @ [obj i], last_id = i\<rparr>)))"

section \<open>Request and response contracts\<close>

text \<open>
  The Pydantic classes. A subclass is a record extension, so the inherited fields come
  first, as in Pydantic's field order; a subclass whose body is \<^verbatim>\<open>pass\<close> is its base.
\<close>

record RoleBase =
  RoleBase_name :: string

type_synonym RoleCreate = RoleBase

record RoleRead = RoleBase +
  RoleRead_id :: int

record UserBase =
  UserBase_name :: string
  UserBase_email :: string
  UserBase_photo :: "string option"
  UserBase_role_id :: int

record UserCreate = UserBase +
  UserCreate_password :: string

record UserRead = UserBase +
  UserRead_id :: int

record MusicGenderBase =
  MusicGenderBase_name :: string

type_synonym MusicGenderCreate = MusicGenderBase

record MusicGenderRead = MusicGenderBase +
  MusicGenderRead_id :: int

record ArtistBase =
  ArtistBase_name :: string
  ArtistBase_photo :: string

type_synonym ArtistCreate = ArtistBase

record ArtistRead = ArtistBase +
  ArtistRead_id :: int

record EventBase =
  EventBase_name :: "string option"
  EventBase_logo :: "string option"
  EventBase_price :: int

type_synonym EventCreate = EventBase

record EventRead = EventBase +
  EventRead_id :: int

record PresentationBase =
  PresentationBase_event_id :: int
  PresentationBase_date_start :: datetime
  PresentationBase_date_end :: "datetime option"
  PresentationBase_flyer :: string

type_synonym PresentationCreate = PresentationBase

record PresentationRead = PresentationBase +
  PresentationRead_id :: int

record TicketBase =
  TicketBase_user_id :: int
  TicketBase_presentation_id :: int

type_synonym TicketCreate = TicketBase

record TicketRead = TicketBase +
  TicketRead_id :: int

record CommentBase =
  CommentBase_message :: string
  CommentBase_presentation_id :: "int option"
  CommentBase_user_id :: "int option"

type_synonym CommentCreate = CommentBase

record CommentRead =
  CommentRead_id :: int
  CommentRead_message :: string
  CommentRead_created_at :: datetime
  CommentRead_user :: "UserRead option"
  CommentRead_presentation :: "PresentationRead option"

subsection \<open>Reading a contract from a stored row\<close>

text \<open>
  \<^verbatim>\<open>ConfigDict(from_attributes=True)\<close>: the read contract takes each of its fields from
  the attribute of the same name of the object the handler returned.
\<close>

definition RoleRead_from :: "Role \<Rightarrow> RoleRead" where
  "RoleRead_from r = \<lparr>RoleBase_name = Role_name r, RoleRead_id = Role_id r\<rparr>"

definition UserRead_from :: "User \<Rightarrow> UserRead" where
  "UserRead_from u =
     \<lparr>UserBase_name = User_name u, UserBase_email = User_email u,
      UserBase_photo = User_photo u, UserBase_role_id = User_role_id u,
      UserRead_id = User_id u\<rparr>"

definition MusicGenderRead_from :: "MusicGender \<Rightarrow> MusicGenderRead" where
  "MusicGenderRead_from g =
     \<lparr>MusicGenderBase_name = MusicGender_name g, MusicGenderRead_id = MusicGender_id g\<rparr>"

definition ArtistRead_from :: "Artist \<Rightarrow> ArtistRead" where
  "ArtistRead_from a =
     \<lparr>ArtistBase_name = Artist_name a, ArtistBase_photo = Artist_photo a,
      ArtistRead_id = Artist_id a\<rparr>"

definition EventRead_from :: "Event \<Rightarrow> EventRead" where
  "EventRead_from e =
     \<lparr>EventBase_name = Event_name e, EventBase_logo = Event_logo e,
      EventBase_price = Event_price e, EventRead_id = Event_id e\<rparr>"

definition PresentationRead_from :: "Presentation \<Rightarrow> PresentationRead" where
  "PresentationRead_from p =
     \<lparr>PresentationBase_event_id = Presentation_event_id p,
      PresentationBase_date_start = Presentation_date_start p,
      PresentationBase_date_end = Presentation_date_end p,
      PresentationBase_flyer = Presentation_flyer p,
      PresentationRead_id = Presentation_id p\<rparr>"

definition TicketRead_from :: "Ticket \<Rightarrow> TicketRead" where
  "TicketRead_from t =
     \<lparr>TicketBase_user_id = Ticket_user_id t,
      TicketBase_presentation_id = Ticket_presentation_id t,
      TicketRead_id = Ticket_id t\<rparr>"

text \<open>
  The two relationships of \<^verbatim>\<open>Comment\<close> that its read contract reads: the row the foreign
  key names, \<^verbatim>\<open>None\<close> when the column is null. \<^verbatim>\<open>joinedload\<close> in \<^verbatim>\<open>list_comments\<close> loads
  the same rows in the listing query; \<^verbatim>\<open>create_comment\<close> loads them on attribute access.
\<close>

definition Comment_user :: "database \<Rightarrow> Comment \<Rightarrow> User option" where
  "Comment_user db c =
     (case Comment_user_id c of None \<Rightarrow> None
      | Some i \<Rightarrow> db_get User_id (tbl_User db) i)"

definition Comment_presentation :: "database \<Rightarrow> Comment \<Rightarrow> Presentation option" where
  "Comment_presentation db c =
     (case Comment_presentation_id c of None \<Rightarrow> None
      | Some i \<Rightarrow> db_get Presentation_id (tbl_Presentation db) i)"

definition CommentRead_from :: "database \<Rightarrow> Comment \<Rightarrow> CommentRead" where
  "CommentRead_from db c =
     \<lparr>CommentRead_id = Comment_id c, CommentRead_message = Comment_message c,
      CommentRead_created_at = Comment_created_at c,
      CommentRead_user = map_option UserRead_from (Comment_user db c),
      CommentRead_presentation =
        map_option PresentationRead_from (Comment_presentation db c)\<rparr>"

subsection \<open>JSON bodies\<close>

datatype json =
  JNull | JInt int | JStr string | JTime datetime
  | JObj "(string \<times> json) list" | JArr "json list"

definition opt :: "('a \<Rightarrow> json) \<Rightarrow> 'a option \<Rightarrow> json" where
  "opt enc v = (case v of None \<Rightarrow> JNull | Some x \<Rightarrow> enc x)"

text \<open>
  The fields of each contract as JSON members, in field order. The functions on a base
  class apply to its subclasses too and give the inherited members.
\<close>

definition RoleBase_fields :: "'a RoleBase_scheme \<Rightarrow> (string \<times> json) list" where
  "RoleBase_fields r = [(''name'', JStr (RoleBase_name r))]"

definition RoleRead_fields :: "RoleRead \<Rightarrow> (string \<times> json) list" where
  "RoleRead_fields r = RoleBase_fields r @ [(''id'', JInt (RoleRead_id r))]"

definition UserBase_fields :: "'a UserBase_scheme \<Rightarrow> (string \<times> json) list" where
  "UserBase_fields u =
     [(''name'', JStr (UserBase_name u)), (''email'', JStr (UserBase_email u)),
      (''photo'', opt JStr (UserBase_photo u)), (''role_id'', JInt (UserBase_role_id u))]"

definition UserCreate_fields :: "UserCreate \<Rightarrow> (string \<times> json) list" where
  "UserCreate_fields u = UserBase_fields u @ [(''password'', JStr (UserCreate_password u))]"

definition UserRead_fields :: "UserRead \<Rightarrow> (string \<times> json) list" where
  "UserRead_fields u = UserBase_fields u @ [(''id'', JInt (UserRead_id u))]"

definition MusicGenderBase_fields :: "'a MusicGenderBase_scheme \<Rightarrow> (string \<times> json) list" where
  "MusicGenderBase_fields g = [(''name'', JStr (MusicGenderBase_name g))]"

definition MusicGenderRead_fields :: "MusicGenderRead \<Rightarrow> (string \<times> json) list" where
  "MusicGenderRead_fields g =
     MusicGenderBase_fields g @ [(''id'', JInt (MusicGenderRead_id g))]"

definition ArtistBase_fields :: "'a ArtistBase_scheme \<Rightarrow> (string \<times> json) list" where
  "ArtistBase_fields a =
     [(''name'', JStr (ArtistBase_name a)), (''photo'', JStr (ArtistBase_photo a))]"

definition ArtistRead_fields :: "ArtistRead \<Rightarrow> (string \<times> json) list" where
  "ArtistRead_fields a = ArtistBase_fields a @ [(''id'', JInt (ArtistRead_id a))]"

definition EventBase_fields :: "'a EventBase_scheme \<Rightarrow> (string \<times> json) list" where
  "EventBase_fields e =
     [(''name'', opt JStr (EventBase_name e)), (''logo'', opt JStr (EventBase_logo e)),
      (''price'', JInt (EventBase_price e))]"

definition EventRead_fields :: "EventRead \<Rightarrow> (string \<times> json) list" where
  "EventRead_fields e = EventBase_fields e @ [(''id'', JInt (EventRead_id e))]"

definition PresentationBase_fields ::
  "'a PresentationBase_scheme \<Rightarrow> (string \<times> json) list" where
  "PresentationBase_fields p =
     [(''event_id'', JInt (PresentationBase_event_id p)),
      (''date_start'', JTime (PresentationBase_date_start p)),
      (''date_end'', opt JTime (PresentationBase_date_end p)),
      (''flyer'', JStr (PresentationBase_flyer p))]"

definition PresentationRead_fields :: "PresentationRead \<Rightarrow> (string \<times> json) list" where
  "PresentationRead_fields p =
     PresentationBase_fields p @ [(''id'', JInt (PresentationRead_id p))]"

definition TicketBase_fields :: "'a TicketBase_scheme \<Rightarrow> (string \<times> json) list" where
  "TicketBase_fields t =
     [(''user_id'', JInt (TicketBase_user_id t)),
      (''presentation_id'', JInt (TicketBase_presentation_id t))]"

definition TicketRead_fields :: "TicketRead \<Rightarrow> (string \<times> json) list" where
  "TicketRead_fields t = TicketBase_fields t @ [(''id'', JInt (TicketRead_id t))]"

definition CommentBase_fields :: "'a CommentBase_scheme \<Rightarrow> (string \<times> json) list" where
  "CommentBase_fields c =
     [(''message'', JStr (CommentBase_message c)),
      (''presentation_id'', opt JInt (CommentBase_presentation_id c)),
      (''user_id'', opt JInt (CommentBase_user_id c))]"

definition CommentRead_fields :: "CommentRead \<Rightarrow> (string \<times> json) list" where
  "CommentRead_fields c =
     [(''id'', JInt (CommentRead_id c)), (''message'', JStr (CommentRead_message c)),
      (''created_at'', JTime (CommentRead_created_at c)),
      (''user'', opt (JObj \<circ> UserRead_fields) (CommentRead_user c)),
      (''presentation'', opt (JObj \<circ> PresentationRead_fields) (CommentRead_presentation c))]"

section \<open>Route handlers\<close>

text \<open>
  Each handler takes the validated contract object FastAPI passes it, the server clock
  reading \<open>utcnow\<close> that \<^verbatim>\<open>datetime.utcnow()\<close> returns during the call, and the database the
  session is bound to. It returns what the Python function returns or the exception it
  raises, and the database as the call leaves it.
\<close>

definition ping :: string where
  "ping = ''pong''"

definition hello :: string where
  "hello = ''Hello world from FastAPI''"

definition list_roles :: "database \<Rightarrow> Role list" where
  "list_roles db = query_all (tbl_Role db)"

definition create_role ::
  "index_limit \<Rightarrow> datetime \<Rightarrow> RoleCreate \<Rightarrow> database \<Rightarrow> (exn + Role) \<times> database" where
  "create_role fits utcnow role db =
     (let db_role = (\<lambda>i. \<lparr>Role_id = i, Role_created_at = utcnow,
                          Role_name = RoleBase_name role\<rparr>);
          (res, t) = add_commit_refresh
                       [text_check (RoleBase_name role)]
                       [unique_check Role_name (tbl_Role db) (RoleBase_name role),
                        index_check fits (RoleBase_name role)]
                       db_role (tbl_Role db)
      in (res, db\<lparr>tbl_Role := t\<rparr>))"

definition list_users :: "database \<Rightarrow> User list" where
  "list_users db = query_all (tbl_User db)"

definition get_user :: "int \<Rightarrow> database \<Rightarrow> exn + User" where
  "get_user user_id db =
     (case db_get User_id (tbl_User db) user_id of
        None \<Rightarrow> Inl (HTTPException 404 ''User not found'')
      | Some user \<Rightarrow> Inr user)"

definition create_user :: "datetime \<Rightarrow> UserCreate \<Rightarrow> database \<Rightarrow> (exn + User) \<times> database" where
  "create_user utcnow user db =
     (let db_user = (\<lambda>i. \<lparr>User_id = i, User_created_at = utcnow,
                          User_name = UserBase_name user, User_email = UserBase_email user,
                          User_password = UserCreate_password user,
                          User_role_id = UserBase_role_id user,
                          User_photo = UserBase_photo user\<rparr>);
          (res, t) = add_commit_refresh
                       [text_check (UserBase_name user), text_check (UserBase_email user),
                        text_check (UserCreate_password user),
                        text_check_opt (UserBase_photo user),
                        bigint_check (UserBase_role_id user)]
                       [fk_check Role_id (tbl_Role db) (UserBase_role_id user)]
                       db_user (tbl_User db)
      in (res, db\<lparr>tbl_User := t\<rparr>))"

definition list_music_genders :: "database \<Rightarrow> MusicGender list" where
  "list_music_genders db = query_all (tbl_Music_Gender db)"

definition create_music_gender ::
  "index_limit \<Rightarrow> datetime \<Rightarrow> MusicGenderCreate \<Rightarrow> database
     \<Rightarrow> (exn + MusicGender) \<times> database" where
  "create_music_gender fits utcnow gender db =
     (let db_gender = (\<lambda>i. \<lparr>MusicGender_id = i, MusicGender_created_at = utcnow,
                            MusicGender_name = MusicGenderBase_name gender\<rparr>);
          (res, t) = add_commit_refresh
                       [text_check (MusicGenderBase_name gender)]
                       [unique_check MusicGender_name (tbl_Music_Gender db)
                          (MusicGenderBase_name gender),
                        index_check fits (MusicGenderBase_name gender)]
                       db_gender (tbl_Music_Gender db)
      in (res, db\<lparr>tbl_Music_Gender := t\<rparr>))"

definition list_artists :: "database \<Rightarrow> Artist list" where
  "list_artists db = query_all (tbl_Artist db)"

definition get_artist :: "int \<Rightarrow> database \<Rightarrow> exn + Artist" where
  "get_artist artist_id db =
     (case db_get Artist_id (tbl_Artist db) artist_id of
        None \<Rightarrow> Inl (HTTPException 404 ''Artist not found'')
      | Some artist \<Rightarrow> Inr artist)"

definition create_artist ::
  "datetime \<Rightarrow> ArtistCreate \<Rightarrow> database \<Rightarrow> (exn + Artist) \<times> database" where
  "create_artist utcnow artist db =
     (let db_artist = (\<lambda>i. \<lparr>Artist_id = i, Artist_created_at = utcnow,
                            Artist_name = ArtistBase_name artist,
                            Artist_photo = ArtistBase_photo artist\<rparr>);
          (res, t) = add_commit_refresh
                       [text_check (ArtistBase_name artist), text_check (ArtistBase_photo artist)]
                       [] db_artist (tbl_Artist db)
      in (res, db\<lparr>tbl_Artist := t\<rparr>))"

definition list_events :: "database \<Rightarrow> Event list" where
  "list_events db = query_all (tbl_Event db)"

definition get_event :: "int \<Rightarrow> database \<Rightarrow> exn + Event" where
  "get_event event_id db =
     (case db_get Event_id (tbl_Event db) event_id of
        None \<Rightarrow> Inl (HTTPException 404 ''Event not found'')
      | Some event \<Rightarrow> Inr event)"

definition create_event :: "datetime \<Rightarrow> EventCreate \<Rightarrow> database \<Rightarrow> (exn + Event) \<times> database" where
  "create_event utcnow event db =
     (let db_event = (\<lambda>i. \<lparr>Event_id = i, Event_created_at = utcnow,
                           Event_name = EventBase_name event, Event_logo = EventBase_logo event,
                           Event_price = EventBase_price event\<rparr>);
          (res, t) = add_commit_refresh
                       [text_check_opt (EventBase_name event),
                        text_check_opt (EventBase_logo event),
                        integer_check (EventBase_price event)]
                       [] db_event (tbl_Event db)
      in (res, db\<lparr>tbl_Event := t\<rparr>))"

definition list_presentations :: "database \<Rightarrow> Presentation list" where
  "list_presentations db = query_all (tbl_Presentation db)"

definition get_presentation :: "int \<Rightarrow> database \<Rightarrow> exn + Presentation" where
  "get_presentation presentation_id db =
     (case db_get Presentation_id (tbl_Presentation db) presentation_id of
        None \<Rightarrow> Inl (HTTPException 404 ''Presentation not found'')
      | Some pres \<Rightarrow> Inr pres)"

definition create_presentation ::
  "datetime \<Rightarrow> PresentationCreate \<Rightarrow> database \<Rightarrow> (exn + Presentation) \<times> database" where
  "create_presentation utcnow presentation db =
     (let db_pres = (\<lambda>i. \<lparr>Presentation_id = i, Presentation_created_at = utcnow,
                          Presentation_event_id = PresentationBase_event_id presentation,
                          Presentation_date_start = PresentationBase_date_start presentation,
                          Presentation_date_end = PresentationBase_date_end presentation,
                          Presentation_flyer = PresentationBase_flyer presentation\<rparr>);
          (res, t) = add_commit_refresh
                       [text_check (PresentationBase_flyer presentation),
                        bigint_check (PresentationBase_event_id presentation)]
                       [fk_check Event_id (tbl_Event db)
                          (PresentationBase_event_id presentation)]
                       db_pres (tbl_Presentation db)
      in (res, db\<lparr>tbl_Presentation := t\<rparr>))"

definition list_tickets :: "database \<Rightarrow> Ticket list" where
  "list_tickets db = query_all (tbl_Ticket db)"

definition create_ticket ::
  "datetime \<Rightarrow> TicketCreate \<Rightarrow> database \<Rightarrow> (exn + Ticket) \<times> database" where
  "create_ticket utcnow ticket db =
     (let db_ticket = (\<lambda>i. \<lparr>Ticket_id = i, Ticket_created_at = utcnow,
                            Ticket_user_id = TicketBase_user_id ticket,
                            Ticket_presentation_id = TicketBase_presentation_id ticket\<rparr>);
          (res, t) = add_commit_refresh
                       [bigint_check (TicketBase_user_id ticket),
                        bigint_check (TicketBase_presentation_id ticket)]
                       [fk_check User_id (tbl_User db) (TicketBase_user_id ticket),
                        fk_check Presentation_id (tbl_Presentation db)
                          (TicketBase_presentation_id ticket)]
                       db_ticket (tbl_Ticket db)
      in (res, db\<lparr>tbl_Ticket := t\<rparr>))"

definition list_comments :: "database \<Rightarrow> Comment list" where
  "list_comments db = query_all (tbl_Comment db)"

definition create_comment ::
  "datetime \<Rightarrow> CommentCreate \<Rightarrow> database \<Rightarrow> (exn + Comment) \<times> database" where
  "create_comment utcnow comment db =
     (let db_comment = (\<lambda>i. \<lparr>Comment_id = i, Comment_created_at = utcnow,
                             Comment_message = CommentBase_message comment,
                             Comment_presentation_id = CommentBase_presentation_id comment,
                             Comment_user_id = CommentBase_user_id comment\<rparr>);
          (res, t) = add_commit_refresh
                       [text_check (CommentBase_message comment),
                        bigint_check_opt (CommentBase_presentation_id comment),
                        bigint_check_opt (CommentBase_user_id comment)]
                       [fk_check_opt Presentation_id (tbl_Presentation db)
                          (CommentBase_presentation_id comment),
                        fk_check_opt User_id (tbl_User db) (CommentBase_user_id comment)]
                       db_comment (tbl_Comment db)
      in (res, db\<lparr>tbl_Comment := t\<rparr>))"

section \<open>The application\<close>

text \<open>The routes the decorators register, with the validated path parameter or body.\<close>

datatype request =
  Ping | Hello
  | ListRoles | CreateRole RoleCreate
  | ListUsers | GetUser int | CreateUser UserCreate
  | ListGenders | CreateGender MusicGenderCreate
  | ListArtists | GetArtist int | CreateArtist ArtistCreate
  | ListEvents | GetEvent int | CreateEvent EventCreate
  | ListPresentations | GetPresentation int | CreatePresentation PresentationCreate
  | ListTickets | CreateTicket TicketCreate
  | ListComments | CreateComment CommentCreate

text \<open>
  A response is a status code with a JSON body. An exception no handler catches leaves
  the application as it is; the framework turns it into an error response that carries
  none of the handler's data.
\<close>

datatype response = Response nat json | Unhandled storage_error

text \<open>
  The route's \<^verbatim>\<open>status_code\<close> and \<^verbatim>\<open>response_model\<close> applied to the handler's outcome;
  an \<^verbatim>\<open>HTTPException\<close> becomes its status code with the detail as body.
\<close>

definition respond :: "nat \<Rightarrow> ('a \<Rightarrow> json) \<Rightarrow> exn + 'a \<Rightarrow> response" where
  "respond code enc res =
     (case res of
        Inr v \<Rightarrow> Response code (enc v)
      | Inl (HTTPException c detail) \<Rightarrow> Response c (JObj [(''detail'', JStr detail)])
      | Inl (StorageError e) \<Rightarrow> Unhandled e)"

definition respond_list :: "('a \<Rightarrow> json) \<Rightarrow> 'a list \<Rightarrow> response" where
  "respond_list enc xs = Response 200 (JArr (map enc xs))"

fun handle :: "index_limit \<Rightarrow> datetime \<Rightarrow> request \<Rightarrow> database \<Rightarrow> response \<times> database" where
  "handle fits utcnow Ping db = (Response 200 (JStr ping), db)"
| "handle fits utcnow Hello db = (Response 200 (JStr hello), db)"
| "handle fits utcnow ListRoles db =
     (respond_list (JObj \<circ> RoleRead_fields \<circ> RoleRead_from) (list_roles db), db)"
| "handle fits utcnow (CreateRole role) db =
     (let (res, db') = create_role fits utcnow role db
      in (respond 201 (JObj \<circ> RoleRead_fields \<circ> RoleRead_from) res, db'))"
| "handle fits utcnow ListUsers db =
     (respond_list (JObj \<circ> UserRead_fields \<circ> UserRead_from) (list_users db), db)"
| "handle fits utcnow (GetUser user_id) db =
     (respond 200 (JObj \<circ> UserRead_fields \<circ> UserRead_from) (get_user user_id db), db)"
| "handle fits utcnow (CreateUser user) db =
     (let (res, db') = create_user utcnow user db
      in (respond 201 (JObj \<circ> UserRead_fields \<circ> UserRead_from) res, db'))"
| "handle fits utcnow ListGenders db =
     (respond_list (JObj \<circ> MusicGenderRead_fields \<circ> MusicGenderRead_from)
        (list_music_genders db), db)"
| "handle fits utcnow (CreateGender gender) db =
     (let (res, db') = create_music_gender fits utcnow gender db
      in (respond 201 (JObj \<circ> MusicGenderRead_fields \<circ> MusicGenderRead_from) res, db'))"
| "handle fits utcnow ListArtists db =
     (respond_list (JObj \<circ> ArtistRead_fields \<circ> ArtistRead_from) (list_artists db), db)"
| "handle fits utcnow (GetArtist artist_id) db =
     (respond 200 (JObj \<circ> ArtistRead_fields \<circ> ArtistRead_from) (get_artist artist_id db), db)"
| "handle fits utcnow (CreateArtist artist) db =
     (let (res, db') = create_artist utcnow artist db
      in (respond 201 (JObj \<circ> ArtistRead_fields \<circ> ArtistRead_from) res, db'))"
| "handle fits utcnow ListEvents db =
     (respond_list (JObj \<circ> EventRead_fields \<circ> EventRead_from) (list_events db), db)"
| "handle fits utcnow (GetEvent event_id) db =
     (respond 200 (JObj \<circ> EventRead_fields \<circ> EventRead_from) (get_event event_id db), db)"
| "handle fits utcnow (CreateEvent event) db =
     (let (res, db') = create_event utcnow event db
      in (respond 201 (JObj \<circ> EventRead_fields \<circ> EventRead_from) res, db'))"
| "handle fits utcnow ListPresentations db =
     (respond_list (JObj \<circ> PresentationRead_fields \<circ> PresentationRead_from)
        (list_presentations db), db)"
| "handle fits utcnow (GetPresentation presentation_id) db =
     (respond 200 (JObj \<circ> PresentationRead_fields \<circ> PresentationRead_from)
        (get_presentation presentation_id db), db)"
| "handle fits utcnow (CreatePresentation presentation) db =
     (let (res, db') = create_presentation utcnow presentation db
      in (respond 201 (JObj \<circ> PresentationRead_fields \<circ> PresentationRead_from) res, db'))"
| "handle fits utcnow ListTickets db =
     (respond_list (JObj \<circ> TicketRead_fields \<circ> TicketRead_from) (list_tickets db), db)"
| "handle fits utcnow (CreateTicket ticket) db =
     (let (res, db') = create_ticket utcnow ticket db
      in (respond 201 (JObj \<circ> TicketRead_fields \<circ> TicketRead_from) res, db'))"
| "handle fits utcnow ListComments db =
     (respond_list (JObj \<circ> CommentRead_fields \<circ> CommentRead_from db) (list_comments db), db)"
| "handle fits utcnow (CreateComment comment) db =
     (let (res, db') = create_comment utcnow comment db
      in (respond 201 (JObj \<circ> CommentRead_fields \<circ> CommentRead_from db') res, db'))"

subsection \<open>The request-scoped session\<close>

text \<open>
  \<^verbatim>\<open>SessionLocal()\<close> makes a new session and \<^verbatim>\<open>db.close()\<close> releases one. The server
  keeps the sessions that are open and the number made so far, which names the next one.
\<close>

record server =
  store :: database
  open_sessions :: "nat set"
  sessions_made :: nat

definition SessionLocal :: "server \<Rightarrow> nat \<times> server" where
  "SessionLocal s =
     (let db = sessions_made s
      in (db, s\<lparr>open_sessions := insert db (open_sessions s), sessions_made := db + 1\<rparr>))"

definition close :: "nat \<Rightarrow> server \<Rightarrow> server" where
  "close db s = s\<lparr>open_sessions := open_sessions s - {db}\<rparr>"

text \<open>
  The dependency \<^verbatim>\<open>get_db\<close>: the session is made, the route runs where the generator
  yields, and the \<^verbatim>\<open>finally\<close> clause closes the session whatever the route's outcome was
  (a response or an exception that nothing caught).
\<close>

definition get_db :: "(database \<Rightarrow> response \<times> database) \<Rightarrow> server \<Rightarrow> response \<times> server" where
  "get_db route s =
     (let (db, s1) = SessionLocal s;
          (r, d) = route (store s1)
      in (r, close db (s1\<lparr>store := d\<rparr>)))"

text \<open>The routes whose handler declares \<^verbatim>\<open>db: Session = Depends(get_db)\<close>.\<close>

fun depends_get_db :: "request \<Rightarrow> bool" where
  "depends_get_db Ping = False"
| "depends_get_db Hello = False"
| "depends_get_db _ = True"

definition serve :: "index_limit \<Rightarrow> datetime \<Rightarrow> request \<Rightarrow> server \<Rightarrow> response \<times> server" where
  "serve fits utcnow req s =
     (if depends_get_db req then get_db (handle fits utcnow req) s
      else (fst (handle fits utcnow req (store s)), s))"

text \<open>A sequence of requests, each with the clock reading at its handling, and its log.\<close>

fun run ::
  "index_limit \<Rightarrow> (datetime \<times> request) list \<Rightarrow> database
     \<Rightarrow> (request \<times> response) list \<times> database" where
  "run fits [] db = ([], db)"
| "run fits ((utcnow, req) # rest) db =
     (let (r, db1) = handle fits utcnow req db;
          (log, db2) = run fits rest db1
      in ((req, r) # log, db2))"

section \<open>Vocabulary of the properties\<close>

text \<open>The mapped classes, the list and create route of each, and the size of its table.\<close>

datatype entity =
  E_Role | E_User | E_MusicGender | E_Artist | E_ArtistGender | E_Event
  | E_Presentation | E_PresentationArtist | E_Ticket | E_Comment

fun list_request :: "entity \<Rightarrow> request option" where
  "list_request E_Role = Some ListRoles"
| "list_request E_User = Some ListUsers"
| "list_request E_MusicGender = Some ListGenders"
| "list_request E_Artist = Some ListArtists"
| "list_request E_Event = Some ListEvents"
| "list_request E_Presentation = Some ListPresentations"
| "list_request E_Ticket = Some ListTickets"
| "list_request E_Comment = Some ListComments"
| "list_request E_ArtistGender = None"
| "list_request E_PresentationArtist = None"

fun creates :: "request \<Rightarrow> entity option" where
  "creates (CreateRole _) = Some E_Role"
| "creates (CreateUser _) = Some E_User"
| "creates (CreateGender _) = Some E_MusicGender"
| "creates (CreateArtist _) = Some E_Artist"
| "creates (CreateEvent _) = Some E_Event"
| "creates (CreatePresentation _) = Some E_Presentation"
| "creates (CreateTicket _) = Some E_Ticket"
| "creates (CreateComment _) = Some E_Comment"
| "creates _ = None"




text \<open>The members a client supplies in the body of a create request.\<close>

fun payload_fields :: "request \<Rightarrow> (string \<times> json) list" where
  "payload_fields (CreateRole role) = RoleBase_fields role"
| "payload_fields (CreateUser user) = UserCreate_fields user"
| "payload_fields (CreateGender gender) = MusicGenderBase_fields gender"
| "payload_fields (CreateArtist artist) = ArtistBase_fields artist"
| "payload_fields (CreateEvent event) = EventBase_fields event"
| "payload_fields (CreatePresentation presentation) = PresentationBase_fields presentation"
| "payload_fields (CreateTicket ticket) = TicketBase_fields ticket"
| "payload_fields (CreateComment comment) = CommentBase_fields comment"
| "payload_fields _ = []"


fun keys :: "json \<Rightarrow> string list" where
  "keys (JObj fs) = map fst fs"
| "keys _ = []"

fun items :: "response \<Rightarrow> json list" where
  "items (Response code (JArr xs)) = xs"
| "items _ = []"

text \<open>What a GET on the entity's list route returns in a given database.\<close>

definition listing :: "entity \<Rightarrow> database \<Rightarrow> json list" where
  "listing e db =
     (case list_request e of None \<Rightarrow> []
      | Some req \<Rightarrow> items (fst (handle (\<lambda>key. True) 0 req db)))"

text \<open>The bodies of the 201 responses to the entity's create route, in order.\<close>

fun created :: "entity \<Rightarrow> (request \<times> response) list \<Rightarrow> json list" where
  "created e [] = []"
| "created e ((req, Response code body) # log) =
     (if creates req = Some e \<and> code = 201 then body # created e log else created e log)"
| "created e ((req, Unhandled err) # log) = created e log"

text \<open>Every table of the second database begins with the rows of the first, unchanged.\<close>

definition rows_kept :: "database \<Rightarrow> database \<Rightarrow> bool" where
  "rows_kept db db' \<longleftrightarrow>
     prefix (rows (tbl_Role db)) (rows (tbl_Role db')) \<and>
     prefix (rows (tbl_User db)) (rows (tbl_User db')) \<and>
     prefix (rows (tbl_Music_Gender db)) (rows (tbl_Music_Gender db')) \<and>
     prefix (rows (tbl_Artist db)) (rows (tbl_Artist db')) \<and>
     prefix (rows (tbl_Artist_Gender db)) (rows (tbl_Artist_Gender db')) \<and>
     prefix (rows (tbl_Event db)) (rows (tbl_Event db')) \<and>
     prefix (rows (tbl_Presentation db)) (rows (tbl_Presentation db')) \<and>
     prefix (rows (tbl_Presentation_Artist db)) (rows (tbl_Presentation_Artist db')) \<and>
     prefix (rows (tbl_Ticket db)) (rows (tbl_Ticket db')) \<and>
     prefix (rows (tbl_Comment db)) (rows (tbl_Comment db'))"

text \<open>
  Every comment's non-null foreign keys name stored rows, as the \<^verbatim>\<open>ForeignKey\<close>
  constraints of \<^verbatim>\<open>Comment\<close> require of the stored data.
\<close>

definition comment_refs_ok :: "database \<Rightarrow> bool" where
  "comment_refs_ok db \<longleftrightarrow>
     list_all (\<lambda>c. (Comment_user_id c = None \<or> Comment_user db c \<noteq> None) \<and>
                    (Comment_presentation_id c = None \<or> Comment_presentation db c \<noteq> None))
       (rows (tbl_Comment db))"

text \<open>The database with every stored password blanked, and a request likewise.\<close>

definition redact :: "database \<Rightarrow> database" where
  "redact db =
     db\<lparr>tbl_User := (tbl_User db)\<lparr>rows := map (\<lambda>u. u\<lparr>User_password := []\<rparr>) (rows (tbl_User db))\<rparr>\<rparr>"

fun redact_request :: "request \<Rightarrow> request" where
  "redact_request (CreateUser user) = CreateUser (user\<lparr>UserCreate_password := []\<rparr>)"
| "redact_request req = req"

text \<open>
  An index limit for the examples: a third of an 8 kB page for the key with its 12 bytes
  of headers, keys stored as they are.
\<close>

definition example_limit :: index_limit where
  "example_limit key \<longleftrightarrow> length key + 12 \<le> 2704"

text \<open>The password of a POST /users payload is one the driver accepts.\<close>

fun password_ok :: "request \<Rightarrow> bool" where
  "password_ok (CreateUser user) = text_ok (UserCreate_password user)"
| "password_ok req = True"

text \<open>Every open session was made by \<^verbatim>\<open>SessionLocal\<close> earlier.\<close>

definition sessions_ok :: "server \<Rightarrow> bool" where
  "sessions_ok s \<longleftrightarrow> (\<forall>db \<in> open_sessions s. db < sessions_made s)"

section \<open>Basic facts about the handlers\<close>

lemma add_commit_refresh_eq:
  "add_commit_refresh ps cs obj t =
     (case first_violation ps of
        Some e \<Rightarrow> (Inl (StorageError e), t)
      | None \<Rightarrow>
          (case first_violation cs of
             Some e \<Rightarrow> (Inl (StorageError e), t\<lparr>last_id := last_id t + 1\<rparr>)
           | None \<Rightarrow> (Inr (obj (last_id t + 1)),
                      \<lparr>rows = rows t @ [obj (last_id t + 1)], last_id = last_id t + 1\<rparr>)))"
  by (simp add: add_commit_refresh_def Let_def split: option.splits)

lemma text_check_None: "text_check v = None \<longleftrightarrow> text_ok v"
  by (simp add: text_check_def text_ok_def)

lemma text_check_ok: "text_ok v \<Longrightarrow> text_check v = None"
  by (simp add: text_check_None)

lemma text_ok_blank: "text_ok []"
  by (simp add: text_ok_def)

lemmas create_defs = create_role_def create_user_def create_music_gender_def create_artist_def
  create_event_def create_presentation_def create_ticket_def create_comment_def

lemmas list_defs = list_roles_def list_users_def list_music_genders_def list_artists_def
  list_events_def list_presentations_def list_tickets_def list_comments_def query_all_def

lemmas get_defs = get_user_def get_artist_def get_event_def get_presentation_def

lemma handle_rows_kept: "rows_kept db (snd (handle fits utcnow req db))"
  by (cases req)
     (simp_all add: rows_kept_def create_defs add_commit_refresh_eq split: option.splits)



subsection \<open>Lookups survive appended rows\<close>

lemma find_append_Some: "find P xs = Some x \<Longrightarrow> find P (xs @ zs) = Some x"
  by (induction xs) (auto split: if_splits)

lemma find_prefix:
  "find P xs = Some x \<Longrightarrow> prefix xs ys \<Longrightarrow> find P ys = Some x"
  by (auto simp: prefix_def find_append_Some)

lemma db_get_prefix:
  "db_get pk t i \<noteq> None \<Longrightarrow> prefix (rows t) (rows t') \<Longrightarrow> db_get pk t' i = db_get pk t i"
  unfolding db_get_def using find_prefix by fastforce

lemma Comment_user_kept:
  assumes "Comment_user_id c = None \<or> Comment_user db c \<noteq> None"
    and "prefix (rows (tbl_User db)) (rows (tbl_User db'))"
  shows "Comment_user db' c = Comment_user db c"
proof (cases "Comment_user_id c")
  case None
  then show ?thesis by (simp add: Comment_user_def)
next
  case (Some i)
  with assms(1) have "db_get User_id (tbl_User db) i \<noteq> None"
    by (simp add: Comment_user_def)
  from db_get_prefix[OF this assms(2)] Some show ?thesis
    by (simp add: Comment_user_def)
qed

lemma Comment_presentation_kept:
  assumes "Comment_presentation_id c = None \<or> Comment_presentation db c \<noteq> None"
    and "prefix (rows (tbl_Presentation db)) (rows (tbl_Presentation db'))"
  shows "Comment_presentation db' c = Comment_presentation db c"
proof (cases "Comment_presentation_id c")
  case None
  then show ?thesis by (simp add: Comment_presentation_def)
next
  case (Some i)
  with assms(1) have "db_get Presentation_id (tbl_Presentation db) i \<noteq> None"
    by (simp add: Comment_presentation_def)
  from db_get_prefix[OF this assms(2)] Some show ?thesis
    by (simp add: Comment_presentation_def)
qed

lemma CommentRead_from_kept:
  assumes "Comment_user_id c = None \<or> Comment_user db c \<noteq> None"
    and "Comment_presentation_id c = None \<or> Comment_presentation db c \<noteq> None"
    and "rows_kept db db'"
  shows "CommentRead_from db' c = CommentRead_from db c"
proof -
  from assms(3) have u: "prefix (rows (tbl_User db)) (rows (tbl_User db'))"
    and p: "prefix (rows (tbl_Presentation db)) (rows (tbl_Presentation db'))"
    by (simp_all add: rows_kept_def)
  show ?thesis
    by (simp add: CommentRead_from_def Comment_user_kept[OF assms(1) u]
        Comment_presentation_kept[OF assms(2) p])
qed

subsection \<open>Listings across a request\<close>

lemma CommentRead_from_same_tables:
  "tbl_User db' = tbl_User db \<Longrightarrow> tbl_Presentation db' = tbl_Presentation db \<Longrightarrow>
     CommentRead_from db' = CommentRead_from db"
  by (rule ext) (simp add: CommentRead_from_def Comment_user_def Comment_presentation_def
      split: option.splits)

lemma listing_Comment:
  "listing E_Comment db =
     map (JObj \<circ> CommentRead_fields \<circ> CommentRead_from db) (rows (tbl_Comment db))"
  by (simp add: listing_def respond_list_def list_defs)

lemma handle_other_keeps_comments:
  "creates req \<noteq> Some E_Comment \<Longrightarrow> tbl_Comment (snd (handle fits utcnow req db)) = tbl_Comment db"
  by (cases req)
     (simp_all add: create_defs add_commit_refresh_eq split: option.splits)

lemma comment_refs_ok_kept:
  assumes ok: "comment_refs_ok db" and kept: "rows_kept db db'"
    and same: "tbl_Comment db' = tbl_Comment db"
  shows "comment_refs_ok db'"
proof -
  from kept have u: "prefix (rows (tbl_User db)) (rows (tbl_User db'))"
    and p: "prefix (rows (tbl_Presentation db)) (rows (tbl_Presentation db'))"
    by (simp_all add: rows_kept_def)
  have "(Comment_user_id c = None \<or> Comment_user db' c \<noteq> None) \<and>
        (Comment_presentation_id c = None \<or> Comment_presentation db' c \<noteq> None)"
    if "c \<in> set (rows (tbl_Comment db))" for c
  proof -
    from ok that have a: "Comment_user_id c = None \<or> Comment_user db c \<noteq> None"
      and b: "Comment_presentation_id c = None \<or> Comment_presentation db c \<noteq> None"
      by (simp_all add: comment_refs_ok_def list_all_iff)
    show ?thesis
      using a b Comment_user_kept[OF a u] Comment_presentation_kept[OF b p] by simp
  qed
  then show ?thesis by (simp add: comment_refs_ok_def list_all_iff same)
qed

lemma listing_Comment_kept:
  assumes ok: "comment_refs_ok db" and kept: "rows_kept db db'"
    and same: "tbl_Comment db' = tbl_Comment db"
  shows "listing E_Comment db' = listing E_Comment db"
proof -
  have "CommentRead_from db' c = CommentRead_from db c"
    if "c \<in> set (rows (tbl_Comment db))" for c
  proof -
    from ok that have a: "Comment_user_id c = None \<or> Comment_user db c \<noteq> None"
      and b: "Comment_presentation_id c = None \<or> Comment_presentation db c \<noteq> None"
      by (simp_all add: comment_refs_ok_def list_all_iff)
    from CommentRead_from_kept[OF a b kept] show ?thesis .
  qed
  then show ?thesis by (simp add: listing_Comment same)
qed

lemma created_single_other:
  "creates req \<noteq> Some e \<Longrightarrow> created e [(req, r)] = []"
  by (cases r) simp_all

lemma listing_step_plain:
  "e \<noteq> E_Comment \<Longrightarrow>
     listing e (snd (handle fits utcnow req db)) =
       listing e db @ created e [(req, fst (handle fits utcnow req db))]"
  by (cases req; cases e)
     (simp_all add: listing_def respond_list_def respond_def list_defs create_defs
        add_commit_refresh_eq created_single_other split: option.splits)

lemma fk_check_opt_None:
  "fk_check_opt pk t ref = None \<Longrightarrow> ref = None \<or> db_get pk t (the ref) \<noteq> None"
  by (auto simp: fk_check_opt_def fk_check_def split: option.splits if_splits)

lemma first_violation_two:
  "first_violation [a, b] = None \<longleftrightarrow> a = None \<and> b = None"
  by (cases a; cases b) simp_all

lemma listing_step_create_comment:
  "listing E_Comment (snd (handle fits utcnow (CreateComment c) db)) =
     listing E_Comment db @
       created E_Comment [(CreateComment c, fst (handle fits utcnow (CreateComment c) db))]"
  by (simp add: listing_Comment respond_def create_defs add_commit_refresh_eq
      CommentRead_from_def Comment_user_def Comment_presentation_def
      split: option.splits)

lemma Comment_user_same:
  "tbl_User db' = tbl_User db \<Longrightarrow> Comment_user db' c = Comment_user db c"
  by (simp add: Comment_user_def split: option.splits)

lemma Comment_presentation_same:
  "tbl_Presentation db' = tbl_Presentation db \<Longrightarrow>
     Comment_presentation db' c = Comment_presentation db c"
  by (simp add: Comment_presentation_def split: option.splits)

lemma comment_refs_ok_same:
  assumes "tbl_User db' = tbl_User db" and "tbl_Presentation db' = tbl_Presentation db"
    and "rows (tbl_Comment db') = rows (tbl_Comment db)"
  shows "comment_refs_ok db' = comment_refs_ok db"
  unfolding comment_refs_ok_def Comment_user_same[OF assms(1)]
    Comment_presentation_same[OF assms(2)] assms(3) ..

lemma comment_refs_ok_create_comment:
  assumes "comment_refs_ok db"
  shows "comment_refs_ok (snd (handle fits utcnow (CreateComment c) db))"
proof -
  let ?ps = "[text_check (CommentBase_message c),
      bigint_check_opt (CommentBase_presentation_id c),
      bigint_check_opt (CommentBase_user_id c)]"
  let ?cs = "[fk_check_opt Presentation_id (tbl_Presentation db) (CommentBase_presentation_id c),
      fk_check_opt User_id (tbl_User db) (CommentBase_user_id c)]"
  let ?new = "\<lparr>Comment_id = last_id (tbl_Comment db) + 1, Comment_created_at = utcnow,
       Comment_message = CommentBase_message c,
       Comment_presentation_id = CommentBase_presentation_id c,
       Comment_user_id = CommentBase_user_id c\<rparr>"
  let ?db' = "snd (handle fits utcnow (CreateComment c) db)"
  consider (refused) e where "first_violation ?ps = Some e"
    | (violated) e where "first_violation ?ps = None" and "first_violation ?cs = Some e"
    | (stored) "first_violation ?ps = None" and "first_violation ?cs = None"
    by (cases "first_violation ?ps"; cases "first_violation ?cs") auto
  then show ?thesis
  proof cases
    case refused
    then have "?db' = db" by (simp add: create_defs add_commit_refresh_eq)
    with assms show ?thesis by (simp only:)
  next
    case violated
    then have "?db' = db\<lparr>tbl_Comment :=
        (tbl_Comment db)\<lparr>last_id := last_id (tbl_Comment db) + 1\<rparr>\<rparr>"
      by (simp add: create_defs add_commit_refresh_eq)
    then have "comment_refs_ok ?db' = comment_refs_ok db"
      by (intro comment_refs_ok_same) (simp only:, simp)+
    with assms show ?thesis by (simp only:)
  next
    case stored
    have db': "?db' = db\<lparr>tbl_Comment :=
        \<lparr>rows = rows (tbl_Comment db) @ [?new], last_id = last_id (tbl_Comment db) + 1\<rparr>\<rparr>"
      using stored by (simp add: create_defs add_commit_refresh_eq)
    have u: "Comment_user ?db' x = Comment_user db x" for x
      by (rule Comment_user_same) (simp only: db', simp)
    have p: "Comment_presentation ?db' x = Comment_presentation db x" for x
      by (rule Comment_presentation_same) (simp only: db', simp)
    from stored(2)
    have "fk_check_opt Presentation_id (tbl_Presentation db) (CommentBase_presentation_id c) = None"
      and "fk_check_opt User_id (tbl_User db) (CommentBase_user_id c) = None"
      by (simp_all add: first_violation_two)
    from fk_check_opt_None[OF this(1)] fk_check_opt_None[OF this(2)]
    have new: "(Comment_user_id ?new = None \<or> Comment_user db ?new \<noteq> None) \<and>
       (Comment_presentation_id ?new = None \<or> Comment_presentation db ?new \<noteq> None)"
      by (auto simp: Comment_user_def Comment_presentation_def)
    have "rows (tbl_Comment ?db') = rows (tbl_Comment db) @ [?new]"
      by (simp only: db', simp)
    with assms new show ?thesis
      unfolding comment_refs_ok_def u p by simp
  qed
qed

lemma comment_refs_ok_handle:
  assumes "comment_refs_ok db"
  shows "comment_refs_ok (snd (handle fits utcnow req db))"
proof (cases "creates req = Some E_Comment")
  case True
  then obtain c where "req = CreateComment c" by (cases req) simp_all
  with assms show ?thesis by (simp only: comment_refs_ok_create_comment)
next
  case False
  from comment_refs_ok_kept[OF assms handle_rows_kept handle_other_keeps_comments[OF False]]
  show ?thesis .
qed

lemma listing_step:
  assumes "comment_refs_ok db"
  shows "listing e (snd (handle fits utcnow req db)) =
           listing e db @ created e [(req, fst (handle fits utcnow req db))]"
proof (cases "e = E_Comment")
  case False
  then show ?thesis by (rule listing_step_plain)
next
  case e: True
  show ?thesis
  proof (cases "creates req = Some E_Comment")
    case True
    then obtain c where "req = CreateComment c" by (cases req) simp_all
    with e show ?thesis by (simp only: listing_step_create_comment)
  next
    case False
    from listing_Comment_kept[OF assms handle_rows_kept handle_other_keeps_comments[OF False]]
      False e
    show ?thesis by (simp add: created_single_other)
  qed
qed

lemma created_Cons: "created e (x # log) = created e [x] @ created e log"
  by (cases x; cases "snd x") auto

lemma run_fst_snd:
  "run fits ((utcnow, req) # rest) db =
     ((req, fst (handle fits utcnow req db)) # fst (run fits rest (snd (handle fits utcnow req db))),
      snd (run fits rest (snd (handle fits utcnow req db))))"
  by (simp add: split_beta)

lemma listing_run:
  "comment_refs_ok db \<Longrightarrow>
     listing e (snd (run fits reqs db)) = listing e db @ created e (fst (run fits reqs db))"
proof (induction reqs arbitrary: db)
  case Nil
  then show ?case by simp
next
  case (Cons a reqs)
  obtain utcnow req where a: "a = (utcnow, req)" by (cases a)
  let ?db1 = "snd (handle fits utcnow req db)"
  have ok1: "comment_refs_ok ?db1" using Cons.prems by (rule comment_refs_ok_handle)
  have "listing e (snd (run fits (a # reqs) db)) = listing e (snd (run fits reqs ?db1))"
    by (simp only: a run_fst_snd snd_conv)
  also have "\<dots> = listing e ?db1 @ created e (fst (run fits reqs ?db1))"
    by (rule Cons.IH[OF ok1])
  also have "\<dots> = listing e db @ created e [(req, fst (handle fits utcnow req db))]
                    @ created e (fst (run fits reqs ?db1))"
    by (simp only: listing_step[OF Cons.prems] append_assoc)
  also have "\<dots> = listing e db @ created e (fst (run fits (a # reqs) db))"
    by (simp only: a run_fst_snd fst_conv created_Cons[of e "(req, fst (handle fits utcnow req db))" "fst (run fits reqs ?db1)"])
  finally show ?case .
qed

lemma list_response:
  "list_request e = Some req \<Longrightarrow>
     handle fits utcnow req db = (Response 200 (JArr (listing e db)), db)"
  by (cases e) (auto simp: listing_def respond_list_def)

subsection \<open>Evaluation on concrete requests\<close>

lemma comment_refs_ok_empty: "comment_refs_ok empty_db"
  by (simp add: comment_refs_ok_def empty_db_def empty_table_def)

lemmas eval_defs = create_defs list_defs get_defs add_commit_refresh_def
  text_check_def text_check_opt_def text_ok_def integer_check_def bigint_check_def
  bigint_check_opt_def unique_check_def index_check_def fk_check_def fk_check_opt_def
  db_get_def integer_ok_def bigint_ok_def example_limit_def respond_def respond_list_def
  empty_db_def empty_table_def listing_def Let_def

lemmas contract_defs = RoleRead_from_def UserRead_from_def MusicGenderRead_from_def
  ArtistRead_from_def EventRead_from_def PresentationRead_from_def TicketRead_from_def
  CommentRead_from_def Comment_user_def Comment_presentation_def opt_def
  RoleBase_fields_def RoleRead_fields_def UserBase_fields_def UserCreate_fields_def
  UserRead_fields_def MusicGenderBase_fields_def MusicGenderRead_fields_def
  ArtistBase_fields_def ArtistRead_fields_def EventBase_fields_def EventRead_fields_def
  PresentationBase_fields_def PresentationRead_fields_def TicketBase_fields_def
  TicketRead_fields_def CommentBase_fields_def CommentRead_fields_def

section \<open>The claims\<close>

subsection \<open>Create responses\<close>








subsection \<open>List responses\<close>

text \<open>
  C2. In a database whose comments satisfy their foreign keys (the empty one, for
  instance), after any sequence of requests a GET on the list route of an entity returns
  status 200 and the rows listed at the start followed by exactly the bodies of the 201
  responses to that entity's create route, in order: every row is serialized as its
  create response was. A list request writes nothing, so a second GET returns the same.
\<close>

theorem list_returns_created_rows:
  assumes "comment_refs_ok db" and "list_request e = Some req"
  shows "fst (handle fits utcnow req (snd (run fits reqs db))) =
           Response 200 (JArr (listing e db @ created e (fst (run fits reqs db)))) \<and>
         handle fits utcnow' req (snd (handle fits utcnow req db')) = handle fits utcnow req db'"
  using listing_run[OF assms(1), where e = e and reqs = reqs and fits = fits]
    list_response[OF assms(2)]
  by simp

theorem list_returns_created_rows_witness:
  "comment_refs_ok empty_db \<and> list_request E_Comment = Some ListComments \<and>
   fst (handle example_limit 9 ListComments (snd (run example_limit
     [(1, CreateRole \<lparr>RoleBase_name = ''Admin''\<rparr>),
      (2, CreateRole \<lparr>RoleBase_name = ''Admin''\<rparr>),
      (3, CreateUser \<lparr>UserBase_name = ''A'', UserBase_email = ''a@b.com'',
            UserBase_photo = None, UserBase_role_id = 1, UserCreate_password = ''x''\<rparr>),
      (4, CreateComment \<lparr>CommentBase_message = ''hi'', CommentBase_presentation_id = None,
            CommentBase_user_id = Some 1\<rparr>),
      (5, ListUsers)] empty_db))) =
   Response 200 (JArr
     [JObj [(''id'', JInt 1), (''message'', JStr ''hi''), (''created_at'', JTime 4),
        (''user'', JObj [(''name'', JStr ''A''), (''email'', JStr ''a@b.com''),
           (''photo'', JNull), (''role_id'', JInt 1), (''id'', JInt 1)]),
        (''presentation'', JNull)]])"
proof -
  have l: "list_request E_Comment = Some ListComments" by simp
  from list_returns_created_rows[OF comment_refs_ok_empty l, where utcnow = 9 and
      fits = example_limit and reqs =
     "[(1, CreateRole \<lparr>RoleBase_name = ''Admin''\<rparr>),
      (2, CreateRole \<lparr>RoleBase_name = ''Admin''\<rparr>),
      (3, CreateUser \<lparr>UserBase_name = ''A'', UserBase_email = ''a@b.com'',
            UserBase_photo = None, UserBase_role_id = 1, UserCreate_password = ''x''\<rparr>),
      (4, CreateComment \<lparr>CommentBase_message = ''hi'', CommentBase_presentation_id = None,
            CommentBase_user_id = Some 1\<rparr>),
      (5, ListUsers)]"]
  show ?thesis
    by (simp add: comment_refs_ok_def eval_defs contract_defs)
qed

subsection \<open>Get by id\<close>

text \<open>
  C3. A GET by id on User, Artist, Event or Presentation returns status 200 with the
  stored row of that id in its read contract when there is one, and otherwise status 404
  with the fixed detail message of the route; it never ends in an unhandled storage
  error, and it leaves the database as it was.
\<close>

theorem get_by_id_row_or_404:
  "handle fits utcnow (GetUser i) db =
     (case find (\<lambda>r. User_id r = i) (rows (tbl_User db)) of
        Some r \<Rightarrow> Response 200 (JObj (UserRead_fields (UserRead_from r)))
      | None \<Rightarrow> Response 404 (JObj [(''detail'', JStr ''User not found'')]), db) \<and>
   handle fits utcnow (GetArtist i) db =
     (case find (\<lambda>r. Artist_id r = i) (rows (tbl_Artist db)) of
        Some r \<Rightarrow> Response 200 (JObj (ArtistRead_fields (ArtistRead_from r)))
      | None \<Rightarrow> Response 404 (JObj [(''detail'', JStr ''Artist not found'')]), db) \<and>
   handle fits utcnow (GetEvent i) db =
     (case find (\<lambda>r. Event_id r = i) (rows (tbl_Event db)) of
        Some r \<Rightarrow> Response 200 (JObj (EventRead_fields (EventRead_from r)))
      | None \<Rightarrow> Response 404 (JObj [(''detail'', JStr ''Event not found'')]), db) \<and>
   handle fits utcnow (GetPresentation i) db =
     (case find (\<lambda>r. Presentation_id r = i) (rows (tbl_Presentation db)) of
        Some r \<Rightarrow> Response 200 (JObj (PresentationRead_fields (PresentationRead_from r)))
      | None \<Rightarrow> Response 404 (JObj [(''detail'', JStr ''Presentation not found'')]), db) \<and>
   (req \<in> {GetUser i, GetArtist i, GetEvent i, GetPresentation i} \<longrightarrow>
      fst (handle fits utcnow req db) \<noteq> Unhandled err)"
  by (auto simp: get_defs db_get_def respond_def split: option.splits)

theorem get_by_id_row_or_404_witness:
  "handle example_limit 3 (GetUser 999999) empty_db =
     (Response 404 (JObj [(''detail'', JStr ''User not found'')]), empty_db) \<and>
   fst (handle example_limit 3 (GetUser 1) (snd (run example_limit
     [(1, CreateRole \<lparr>RoleBase_name = ''Admin''\<rparr>),
      (2, CreateUser \<lparr>UserBase_name = ''A'', UserBase_email = ''a@b.com'',
            UserBase_photo = None, UserBase_role_id = 1, UserCreate_password = ''x''\<rparr>)]
     empty_db))) =
     Response 200 (JObj [(''name'', JStr ''A''), (''email'', JStr ''a@b.com''),
           (''photo'', JNull), (''role_id'', JInt 1), (''id'', JInt 1)])"
  using get_by_id_row_or_404[where fits = example_limit and utcnow = 3 and i = 999999 and
      db = empty_db and req = "GetUser 999999"]
    get_by_id_row_or_404[where fits = example_limit and utcnow = 3 and i = 1 and
      req = "GetUser 1" and db = "snd (run example_limit
     [(1, CreateRole \<lparr>RoleBase_name = ''Admin''\<rparr>),
      (2, CreateUser \<lparr>UserBase_name = ''A'', UserBase_email = ''a@b.com'',
            UserBase_photo = None, UserBase_role_id = 1, UserCreate_password = ''x''\<rparr>)]
     empty_db)"]
  by (simp add: eval_defs contract_defs)

subsection \<open>Comments without associations\<close>




subsection \<open>Server-side id and timestamp\<close>






subsection \<open>Unique names\<close>

lemma create_role_duplicate:
  assumes "r \<in> set (rows (tbl_Role db))" and "Role_name r = RoleBase_name role"
  shows "(\<exists>err. fst (handle fits utcnow (CreateRole role) db) = Unhandled err) \<and>
         rows (tbl_Role (snd (handle fits utcnow (CreateRole role) db))) = rows (tbl_Role db) \<and>
         (text_ok (RoleBase_name role) \<longrightarrow>
            fst (handle fits utcnow (CreateRole role) db) = Unhandled UniqueViolation)"
proof -
  have u: "unique_check Role_name (tbl_Role db) (RoleBase_name role) = Some UniqueViolation"
    using assms by (auto simp: unique_check_def)
  show ?thesis
    by (cases "text_check (RoleBase_name role)")
       (simp_all add: create_defs add_commit_refresh_eq u respond_def
          text_check_None[symmetric])
qed

lemma create_gender_duplicate:
  assumes "g \<in> set (rows (tbl_Music_Gender db))"
    and "MusicGender_name g = MusicGenderBase_name gender"
  shows "(\<exists>err. fst (handle fits utcnow (CreateGender gender) db) = Unhandled err) \<and>
         rows (tbl_Music_Gender (snd (handle fits utcnow (CreateGender gender) db))) =
           rows (tbl_Music_Gender db) \<and>
         (text_ok (MusicGenderBase_name gender) \<longrightarrow>
            fst (handle fits utcnow (CreateGender gender) db) = Unhandled UniqueViolation)"
proof -
  have u: "unique_check MusicGender_name (tbl_Music_Gender db) (MusicGenderBase_name gender) =
      Some UniqueViolation"
    using assms by (auto simp: unique_check_def)
  show ?thesis
    by (cases "text_check (MusicGenderBase_name gender)")
       (simp_all add: create_defs add_commit_refresh_eq u respond_def
          text_check_None[symmetric])
qed

text \<open>
  C6. POST /roles with the name of a stored Role is not answered: the commit raises,
  nothing catches it, and the Role table keeps exactly the rows it had, so there is no
  second row. The error is the unique-constraint violation whenever the name is one the
  driver accepts, as every stored name is. POST /genders does the same for the name of a
  stored MusicGender.
\<close>

theorem duplicate_name_rejected:
  "(r \<in> set (rows (tbl_Role db)) \<longrightarrow> Role_name r = RoleBase_name role \<longrightarrow>
      (\<exists>err. fst (handle fits utcnow (CreateRole role) db) = Unhandled err) \<and>
      rows (tbl_Role (snd (handle fits utcnow (CreateRole role) db))) = rows (tbl_Role db) \<and>
      (text_ok (RoleBase_name role) \<longrightarrow>
         fst (handle fits utcnow (CreateRole role) db) = Unhandled UniqueViolation)) \<and>
   (g \<in> set (rows (tbl_Music_Gender db)) \<longrightarrow>
      MusicGender_name g = MusicGenderBase_name gender \<longrightarrow>
      (\<exists>err. fst (handle fits utcnow (CreateGender gender) db) = Unhandled err) \<and>
      rows (tbl_Music_Gender (snd (handle fits utcnow (CreateGender gender) db))) =
        rows (tbl_Music_Gender db) \<and>
      (text_ok (MusicGenderBase_name gender) \<longrightarrow>
         fst (handle fits utcnow (CreateGender gender) db) = Unhandled UniqueViolation))"
  using create_role_duplicate[of r db role fits utcnow]
    create_gender_duplicate[of g db gender fits utcnow]
  by blast

theorem duplicate_name_rejected_witness:
  "fst (handle example_limit 2 (CreateRole \<lparr>RoleBase_name = ''Admin''\<rparr>)
     (snd (handle example_limit 1 (CreateRole \<lparr>RoleBase_name = ''Admin''\<rparr>) empty_db))) =
     Unhandled UniqueViolation \<and>
   rows (tbl_Role (snd (handle example_limit 2 (CreateRole \<lparr>RoleBase_name = ''Admin''\<rparr>)
     (snd (handle example_limit 1 (CreateRole \<lparr>RoleBase_name = ''Admin''\<rparr>) empty_db))))) =
     [\<lparr>Role_id = 1, Role_created_at = 1, Role_name = ''Admin''\<rparr>] \<and>
   fst (handle example_limit 2 (CreateGender \<lparr>MusicGenderBase_name = ''Afrobeat''\<rparr>)
     (snd (handle example_limit 1 (CreateGender \<lparr>MusicGenderBase_name = ''Afrobeat''\<rparr>)
        empty_db))) = Unhandled UniqueViolation \<and>
   rows (tbl_Music_Gender (snd (handle example_limit 2
     (CreateGender \<lparr>MusicGenderBase_name = ''Afrobeat''\<rparr>)
     (snd (handle example_limit 1 (CreateGender \<lparr>MusicGenderBase_name = ''Afrobeat''\<rparr>)
        empty_db))))) =
     [\<lparr>MusicGender_id = 1, MusicGender_created_at = 1, MusicGender_name = ''Afrobeat''\<rparr>]"
  using duplicate_name_rejected[where fits = example_limit and utcnow = 2 and
      r = "\<lparr>Role_id = 1, Role_created_at = 1, Role_name = ''Admin''\<rparr>" and
      db = "snd (handle example_limit 1 (CreateRole \<lparr>RoleBase_name = ''Admin''\<rparr>) empty_db)" and
      role = "\<lparr>RoleBase_name = ''Admin''\<rparr>"]
    duplicate_name_rejected[where fits = example_limit and utcnow = 2 and
      g = "\<lparr>MusicGender_id = 1, MusicGender_created_at = 1, MusicGender_name = ''Afrobeat''\<rparr>" and
      db = "snd (handle example_limit 1 (CreateGender \<lparr>MusicGenderBase_name = ''Afrobeat''\<rparr>)
        empty_db)" and
      gender = "\<lparr>MusicGenderBase_name = ''Afrobeat''\<rparr>"]
  by (simp add: eval_defs contract_defs)

subsection \<open>Frame of the routes\<close>



subsection \<open>Session lifetime\<close>

lemma serve_sessions:
  "sessions_ok s \<Longrightarrow>
     open_sessions (snd (serve fits utcnow req s)) = open_sessions s \<and>
     sessions_ok (snd (serve fits utcnow req s)) \<and>
     sessions_made s \<notin> open_sessions s \<and>
     sessions_made (snd (serve fits utcnow req s)) =
       sessions_made s + (if depends_get_db req then 1 else 0)"
  by (auto simp: serve_def get_db_def SessionLocal_def close_def sessions_ok_def
      split_beta Let_def)

lemma handle_no_dependency:
  "\<not> depends_get_db req \<Longrightarrow> snd (handle fits utcnow req db) = db"
  by (cases req) simp_all

lemma serve_handle:
  "fst (serve fits utcnow req s) = fst (handle fits utcnow req (store s)) \<and>
   store (snd (serve fits utcnow req s)) = snd (handle fits utcnow req (store s))"
  by (cases "depends_get_db req")
     (simp_all add: serve_def get_db_def SessionLocal_def close_def split_beta Let_def
        handle_no_dependency)

text \<open>
  C8, as stated, fails for the two health-check routes: GET /ping is answered without
  any session being made.
\<close>

theorem ping_acquires_no_session_counterexample:
  "sessions_made (snd (serve example_limit 0 Ping
      \<lparr>store = empty_db, open_sessions = {}, sessions_made = 0\<rparr>)) = 0 \<and>
   fst (serve example_limit 0 Ping \<lparr>store = empty_db, open_sessions = {}, sessions_made = 0\<rparr>) =
     Response 200 (JStr ''pong'')"
  by (simp add: serve_def ping_def)

text \<open>
  C8, amended. A request to a route that depends on \<^verbatim>\<open>get_db\<close> (every route but
  GET /ping and GET /) makes exactly one session, which was not open before; the two
  health-check routes make none. After any request, whether it ended in a response or in
  an unhandled storage error, the open sessions are those that were open before it: the
  session of the request has been closed. The response and the stored data are the
  handler's.
\<close>

theorem session_released_after_request:
  assumes "sessions_ok s"
  shows "sessions_made (snd (serve fits utcnow req s)) =
           sessions_made s + (if depends_get_db req then 1 else 0) \<and>
         sessions_made s \<notin> open_sessions s \<and>
         open_sessions (snd (serve fits utcnow req s)) = open_sessions s \<and>
         sessions_ok (snd (serve fits utcnow req s)) \<and>
         fst (serve fits utcnow req s) = fst (handle fits utcnow req (store s)) \<and>
         store (snd (serve fits utcnow req s)) = snd (handle fits utcnow req (store s))"
  using serve_sessions[OF assms, where fits = fits and utcnow = utcnow and req = req]
    serve_handle[where fits = fits and utcnow = utcnow and req = req and s = s]
  by simp

theorem session_released_after_request_witness:
  "sessions_ok \<lparr>store = empty_db, open_sessions = {}, sessions_made = 0\<rparr> \<and>
   fst (serve example_limit 8 (CreateUser \<lparr>UserBase_name = ''A'', UserBase_email = ''a@b.com'',
      UserBase_photo = None, UserBase_role_id = 1, UserCreate_password = ''x''\<rparr>)
      \<lparr>store = empty_db, open_sessions = {}, sessions_made = 0\<rparr>) =
     Unhandled ForeignKeyViolation \<and>
   open_sessions (snd (serve example_limit 8 (CreateUser \<lparr>UserBase_name = ''A'',
      UserBase_email = ''a@b.com'', UserBase_photo = None, UserBase_role_id = 1,
      UserCreate_password = ''x''\<rparr>)
      \<lparr>store = empty_db, open_sessions = {}, sessions_made = 0\<rparr>)) = {} \<and>
   sessions_made (snd (serve example_limit 8 (CreateUser \<lparr>UserBase_name = ''A'',
      UserBase_email = ''a@b.com'', UserBase_photo = None, UserBase_role_id = 1,
      UserCreate_password = ''x''\<rparr>)
      \<lparr>store = empty_db, open_sessions = {}, sessions_made = 0\<rparr>)) = 1"
proof -
  let ?s = "\<lparr>store = empty_db, open_sessions = {}, sessions_made = 0\<rparr>"
  have ok: "sessions_ok ?s" by (simp add: sessions_ok_def)
  from session_released_after_request[OF ok, where fits = example_limit and utcnow = 8 and
      req = "CreateUser \<lparr>UserBase_name = ''A'',
      UserBase_email = ''a@b.com'', UserBase_photo = None, UserBase_role_id = 1,
      UserCreate_password = ''x''\<rparr>"] ok
  show ?thesis
    by (simp add: eval_defs contract_defs)
qed

subsection \<open>Passwords stay in the store\<close>

lemma UserRead_from_blank: "UserRead_from (u\<lparr>User_password := p\<rparr>) = UserRead_from u"
  by (simp add: UserRead_from_def)

lemma find_map_id:
  "(\<And>x. P (f x) = P x) \<Longrightarrow> find P (map f xs) = map_option f (find P xs)"
  by (induction xs) auto

lemma db_get_User_redact:
  "db_get User_id (tbl_User (redact db)) i =
     map_option (\<lambda>u. u\<lparr>User_password := []\<rparr>) (db_get User_id (tbl_User db) i)"
  by (simp add: db_get_def redact_def find_map_id)

lemma fk_check_User_redact:
  "fk_check User_id (tbl_User (redact db)) i = fk_check User_id (tbl_User db) i"
  by (simp add: fk_check_def db_get_User_redact)

lemma fk_check_opt_User_redact:
  "fk_check_opt User_id (tbl_User (redact db)) r = fk_check_opt User_id (tbl_User db) r"
  by (simp add: fk_check_opt_def fk_check_User_redact split: option.splits)

lemma redact_other_tables:
  "tbl_Role (redact db) = tbl_Role db" "tbl_Music_Gender (redact db) = tbl_Music_Gender db"
  "tbl_Artist (redact db) = tbl_Artist db" "tbl_Artist_Gender (redact db) = tbl_Artist_Gender db"
  "tbl_Event (redact db) = tbl_Event db" "tbl_Presentation (redact db) = tbl_Presentation db"
  "tbl_Presentation_Artist (redact db) = tbl_Presentation_Artist db"
  "tbl_Ticket (redact db) = tbl_Ticket db" "tbl_Comment (redact db) = tbl_Comment db"
  "last_id (tbl_User (redact db)) = last_id (tbl_User db)"
  "rows (tbl_User (redact db)) = map (\<lambda>u. u\<lparr>User_password := []\<rparr>) (rows (tbl_User db))"
  by (simp_all add: redact_def)

lemma Comment_user_redact:
  "map_option UserRead_from (Comment_user (redact db) c) =
     map_option UserRead_from (Comment_user db c)"
proof (cases "Comment_user_id c")
  case None
  then show ?thesis by (simp add: Comment_user_def)
next
  case (Some i)
  then show ?thesis
    by (cases "db_get User_id (tbl_User db) i")
       (simp_all add: Comment_user_def db_get_User_redact UserRead_from_blank)
qed

lemma CommentRead_from_redact: "CommentRead_from (redact db) c = CommentRead_from db c"
  by (simp add: CommentRead_from_def Comment_user_redact
      Comment_presentation_same[OF redact_other_tables(6)])

lemma CommentRead_from_Comment_update:
  "CommentRead_from (db\<lparr>tbl_Comment := t\<rparr>) = CommentRead_from db"
  by (rule CommentRead_from_same_tables) simp_all

lemma handle_redact_response:
  "password_ok req \<Longrightarrow>
     fst (handle fits utcnow (redact_request req) (redact db)) = fst (handle fits utcnow req db)"
  by (cases req)
     (simp_all add: create_defs list_defs get_defs add_commit_refresh_eq respond_def
        respond_list_def db_get_User_redact redact_other_tables fk_check_User_redact
        fk_check_opt_User_redact UserRead_from_blank UserRead_from_def CommentRead_from_redact
        CommentRead_from_Comment_update text_ok_blank text_check_ok
        split: option.splits)

lemma redact_update:
  "redact (db\<lparr>tbl_Role := t1\<rparr>) = (redact db)\<lparr>tbl_Role := t1\<rparr>"
  "redact (db\<lparr>tbl_Music_Gender := t2\<rparr>) = (redact db)\<lparr>tbl_Music_Gender := t2\<rparr>"
  "redact (db\<lparr>tbl_Artist := t3\<rparr>) = (redact db)\<lparr>tbl_Artist := t3\<rparr>"
  "redact (db\<lparr>tbl_Event := t4\<rparr>) = (redact db)\<lparr>tbl_Event := t4\<rparr>"
  "redact (db\<lparr>tbl_Presentation := t5\<rparr>) = (redact db)\<lparr>tbl_Presentation := t5\<rparr>"
  "redact (db\<lparr>tbl_Ticket := t6\<rparr>) = (redact db)\<lparr>tbl_Ticket := t6\<rparr>"
  "redact (db\<lparr>tbl_Comment := t7\<rparr>) = (redact db)\<lparr>tbl_Comment := t7\<rparr>"
  by (simp_all add: redact_def)

lemma redact_update_User:
  "redact (db\<lparr>tbl_User := \<lparr>rows = rows (tbl_User db) @ [u], last_id = l\<rparr>\<rparr>) =
     (redact db)\<lparr>tbl_User :=
        \<lparr>rows = rows (tbl_User (redact db)) @ [u\<lparr>User_password := []\<rparr>], last_id = l\<rparr>\<rparr>"
  by (simp add: redact_def)

lemma redact_update_User_sequence:
  "redact (db\<lparr>tbl_User := (tbl_User db)\<lparr>last_id := l\<rparr>\<rparr>) =
     (redact db)\<lparr>tbl_User := (tbl_User (redact db))\<lparr>last_id := l\<rparr>\<rparr>"
  by (simp add: redact_def)

lemma handle_redact_state:
  "password_ok req \<Longrightarrow>
     snd (handle fits utcnow (redact_request req) (redact db)) =
       redact (snd (handle fits utcnow req db))"
  by (cases req)
     (simp_all add: create_defs add_commit_refresh_eq redact_other_tables
        fk_check_User_redact fk_check_opt_User_redact redact_update redact_update_User
        redact_update_User_sequence text_ok_blank text_check_ok
        split: option.splits)

text \<open>
  C9. Two databases that differ only in stored passwords, given two requests that
  differ only in the password of a POST /users payload, each password one the driver
  accepts (as every stored password is), yield the same response to every route,
  GET /users, GET /users/{id} and POST /users among them, and leave databases that again
  differ only in stored passwords: no response depends on a password.
\<close>

theorem responses_independent_of_passwords:
  assumes "redact db1 = redact db2" and "redact_request req1 = redact_request req2"
    and "password_ok req1" and "password_ok req2"
  shows "fst (handle fits utcnow req1 db1) = fst (handle fits utcnow req2 db2) \<and>
         redact (snd (handle fits utcnow req1 db1)) = redact (snd (handle fits utcnow req2 db2))"
proof -
  have "fst (handle fits utcnow req1 db1) =
          fst (handle fits utcnow (redact_request req1) (redact db1))"
    by (simp only: handle_redact_response[OF assms(3)])
  also have "\<dots> = fst (handle fits utcnow (redact_request req2) (redact db2))"
    by (simp only: assms(1,2))
  also have "\<dots> = fst (handle fits utcnow req2 db2)"
    by (simp only: handle_redact_response[OF assms(4)])
  finally have r: "fst (handle fits utcnow req1 db1) = fst (handle fits utcnow req2 db2)" .
  have "redact (snd (handle fits utcnow req1 db1)) =
          snd (handle fits utcnow (redact_request req1) (redact db1))"
    by (simp only: handle_redact_state[OF assms(3)])
  also have "\<dots> = snd (handle fits utcnow (redact_request req2) (redact db2))"
    by (simp only: assms(1,2))
  also have "\<dots> = redact (snd (handle fits utcnow req2 db2))"
    by (simp only: handle_redact_state[OF assms(4)])
  finally show ?thesis using r by simp
qed

theorem responses_independent_of_passwords_witness:
  "password_ok (CreateUser \<lparr>UserBase_name = ''A'', UserBase_email = ''a@b.com'',
      UserBase_photo = None, UserBase_role_id = 1, UserCreate_password = ''x''\<rparr>) \<and>
   password_ok (CreateUser \<lparr>UserBase_name = ''A'', UserBase_email = ''a@b.com'',
      UserBase_photo = None, UserBase_role_id = 1, UserCreate_password = ''hunter2''\<rparr>) \<and>
   redact_request (CreateUser \<lparr>UserBase_name = ''A'', UserBase_email = ''a@b.com'',
      UserBase_photo = None, UserBase_role_id = 1, UserCreate_password = ''x''\<rparr>) =
   redact_request (CreateUser \<lparr>UserBase_name = ''A'', UserBase_email = ''a@b.com'',
      UserBase_photo = None, UserBase_role_id = 1, UserCreate_password = ''hunter2''\<rparr>) \<and>
   fst (handle example_limit 8 (CreateUser \<lparr>UserBase_name = ''A'', UserBase_email = ''a@b.com'',
      UserBase_photo = None, UserBase_role_id = 1, UserCreate_password = ''x''\<rparr>)
      (snd (handle example_limit 7 (CreateRole \<lparr>RoleBase_name = ''Admin''\<rparr>) empty_db))) =
   fst (handle example_limit 8 (CreateUser \<lparr>UserBase_name = ''A'', UserBase_email = ''a@b.com'',
      UserBase_photo = None, UserBase_role_id = 1, UserCreate_password = ''hunter2''\<rparr>)
      (snd (handle example_limit 7 (CreateRole \<lparr>RoleBase_name = ''Admin''\<rparr>) empty_db))) \<and>
   snd (handle example_limit 8 (CreateUser \<lparr>UserBase_name = ''A'', UserBase_email = ''a@b.com'',
      UserBase_photo = None, UserBase_role_id = 1, UserCreate_password = ''x''\<rparr>)
      (snd (handle example_limit 7 (CreateRole \<lparr>RoleBase_name = ''Admin''\<rparr>) empty_db))) \<noteq>
   snd (handle example_limit 8 (CreateUser \<lparr>UserBase_name = ''A'', UserBase_email = ''a@b.com'',
      UserBase_photo = None, UserBase_role_id = 1, UserCreate_password = ''hunter2''\<rparr>)
      (snd (handle example_limit 7 (CreateRole \<lparr>RoleBase_name = ''Admin''\<rparr>) empty_db))) \<and>
   fst (handle example_limit 9 (GetUser 1) (snd (handle example_limit 8 (CreateUser
      \<lparr>UserBase_name = ''A'', UserBase_email = ''a@b.com'', UserBase_photo = None,
       UserBase_role_id = 1, UserCreate_password = ''x''\<rparr>)
      (snd (handle example_limit 7 (CreateRole \<lparr>RoleBase_name = ''Admin''\<rparr>) empty_db))))) =
   fst (handle example_limit 9 (GetUser 1) (snd (handle example_limit 8 (CreateUser
      \<lparr>UserBase_name = ''A'', UserBase_email = ''a@b.com'', UserBase_photo = None,
       UserBase_role_id = 1, UserCreate_password = ''hunter2''\<rparr>)
      (snd (handle example_limit 7 (CreateRole \<lparr>RoleBase_name = ''Admin''\<rparr>) empty_db)))))"
proof -
  let ?db = "snd (handle example_limit 7 (CreateRole \<lparr>RoleBase_name = ''Admin''\<rparr>) empty_db)"
  let ?q1 = "CreateUser \<lparr>UserBase_name = ''A'', UserBase_email = ''a@b.com'',
      UserBase_photo = None, UserBase_role_id = 1, UserCreate_password = ''x''\<rparr>"
  let ?q2 = "CreateUser \<lparr>UserBase_name = ''A'', UserBase_email = ''a@b.com'',
      UserBase_photo = None, UserBase_role_id = 1, UserCreate_password = ''hunter2''\<rparr>"
  have d: "redact ?db = redact ?db" by simp
  have q: "redact_request ?q1 = redact_request ?q2" by simp
  have p1: "password_ok ?q1" and p2: "password_ok ?q2" by (simp_all add: text_ok_def)
  have g: "redact_request (GetUser 1) = redact_request (GetUser 1)" by simp
  have pg: "password_ok (GetUser 1)" by simp
  have n: "snd (handle example_limit 8 ?q1 ?db) \<noteq> snd (handle example_limit 8 ?q2 ?db)"
    by (simp add: eval_defs)
  note first = responses_independent_of_passwords[OF d q p1 p2,
      where fits = example_limit and utcnow = 8]
  then have d': "redact (snd (handle example_limit 8 ?q1 ?db)) =
      redact (snd (handle example_limit 8 ?q2 ?db))" by simp
  from first responses_independent_of_passwords[OF d' g pg pg,
      where fits = example_limit and utcnow = 9] q p1 p2 n
  show ?thesis by simp
qed

subsection \<open>The Comment read contract\<close>

lemma create_comment_keys:
  "fst (handle fits utcnow (CreateComment c) db) = Response code body \<Longrightarrow>
     code = 201 \<and> keys body = [''id'', ''message'', ''created_at'', ''user'', ''presentation'']"
  by (auto simp: create_defs add_commit_refresh_eq respond_def CommentRead_fields_def
      split: option.splits)

lemma listing_comment_keys:
  "item \<in> set (listing E_Comment db) \<Longrightarrow>
     keys item = [''id'', ''message'', ''created_at'', ''user'', ''presentation'']"
  by (auto simp: listing_Comment CommentRead_fields_def)

text \<open>
  C10. The body of a response to POST /comments, which is always a 201 body when the
  route responds, and every item GET /comments returns have exactly the members
  \<^verbatim>\<open>id\<close>, \<^verbatim>\<open>message\<close>, \<^verbatim>\<open>created_at\<close>, \<^verbatim>\<open>user\<close> and \<^verbatim>\<open>presentation\<close>; the create contract's
  members are \<^verbatim>\<open>message\<close>, \<^verbatim>\<open>presentation_id\<close> and \<^verbatim>\<open>user_id\<close>, and the last two are in no
  response.
\<close>

theorem comment_read_contract_has_no_foreign_keys:
  "(fst (handle fits utcnow (CreateComment c) db) = Response code body \<longrightarrow>
      code = 201 \<and> keys body = [''id'', ''message'', ''created_at'', ''user'', ''presentation'']) \<and>
   fst (handle fits utcnow' ListComments db) = Response 200 (JArr (listing E_Comment db)) \<and>
   (\<forall>item \<in> set (listing E_Comment db).
      keys item = [''id'', ''message'', ''created_at'', ''user'', ''presentation'']) \<and>
   map fst (payload_fields (CreateComment c)) = [''message'', ''presentation_id'', ''user_id'']"
  using create_comment_keys[where fits = fits and utcnow = utcnow and c = c and db = db
      and code = code and body = body]
    listing_comment_keys[where db = db]
    list_response[where e = E_Comment and req = ListComments and fits = fits
      and utcnow = utcnow' and db = db]
  by (simp add: CommentBase_fields_def)

theorem comment_read_contract_has_no_foreign_keys_witness:
  "keys (JObj [(''id'', JInt 1), (''message'', JStr ''hi''), (''created_at'', JTime 4),
        (''user'', JObj [(''name'', JStr ''A''), (''email'', JStr ''a@b.com''),
           (''photo'', JNull), (''role_id'', JInt 1), (''id'', JInt 1)]),
        (''presentation'', JNull)]) =
     [''id'', ''message'', ''created_at'', ''user'', ''presentation''] \<and>
   fst (handle example_limit 4 (CreateComment \<lparr>CommentBase_message = ''hi'', CommentBase_presentation_id = None,
            CommentBase_user_id = Some 1\<rparr>) (snd (run example_limit
     [(1, CreateRole \<lparr>RoleBase_name = ''Admin''\<rparr>),
      (3, CreateUser \<lparr>UserBase_name = ''A'', UserBase_email = ''a@b.com'',
            UserBase_photo = None, UserBase_role_id = 1, UserCreate_password = ''x''\<rparr>)]
      empty_db))) =
   Response 201 (JObj [(''id'', JInt 1), (''message'', JStr ''hi''), (''created_at'', JTime 4),
        (''user'', JObj [(''name'', JStr ''A''), (''email'', JStr ''a@b.com''),
           (''photo'', JNull), (''role_id'', JInt 1), (''id'', JInt 1)]),
        (''presentation'', JNull)])"
proof -
  let ?db = "snd (run example_limit
     [(1, CreateRole \<lparr>RoleBase_name = ''Admin''\<rparr>),
      (3, CreateUser \<lparr>UserBase_name = ''A'', UserBase_email = ''a@b.com'',
            UserBase_photo = None, UserBase_role_id = 1, UserCreate_password = ''x''\<rparr>)]
      empty_db)"
  let ?c = "\<lparr>CommentBase_message = ''hi'', CommentBase_presentation_id = None,
            CommentBase_user_id = Some 1\<rparr>"
  let ?body = "JObj [(''id'', JInt 1), (''message'', JStr ''hi''), (''created_at'', JTime 4),
        (''user'', JObj [(''name'', JStr ''A''), (''email'', JStr ''a@b.com''),
           (''photo'', JNull), (''role_id'', JInt 1), (''id'', JInt 1)]),
        (''presentation'', JNull)]"
  have r: "fst (handle example_limit 4 (CreateComment ?c) ?db) = Response 201 ?body"
    by (simp add: eval_defs contract_defs)
  from comment_read_contract_has_no_foreign_keys[where fits = example_limit and utcnow = 4
      and c = ?c and db = ?db and code = 201 and body = ?body] r
  show ?thesis by simp
qed

end
